theory Spec2Isabelle
  imports Complex_Main
begin

section \<open>The blockchain forecasting pipeline builder\<close>

text \<open>
  A shallow embedding of \<^verbatim>\<open>pipelines/blockchain/pipeline.py\<close>. The file builds one
  SageMaker pipeline object out of calls to the SageMaker SDK and to boto3. The objects of
  the SDK are modelled as records holding the keyword arguments the source passes, the
  steps as a datatype, and every call that leaves the process (boto3, the parameter store,
  the image lookup, the role lookup) as a field of a record \<open>world\<close> that gives the
  outcome of the call: an exception or a value.

  Exceptions are values of \<open>py_error\<close>; only subclasses of \<^verbatim>\<open>Exception\<close> are
  modelled, which is what \<^verbatim>\<open>except Exception\<close> catches. Standard output is a list of
  lines, one constructor per \<^verbatim>\<open>print\<close> call of the source. The floating-point number
  type is the type parameter \<open>'f\<close>: the source only parses such numbers and passes them on.
\<close>

subsection \<open>Exceptions, standard output and sequencing\<close>

datatype py_error =
    KeyError string
  | ValueError string
  | OtherException string string

datatype 'f stdout_line =
    Error_getting_project_tags py_error
  | Error_reading_model_target_parameters py_error
  | Error_reading_model_training_hyperparameters py_error
  | Error_reading_model_validation_thresholds py_error
  | Model_validation_threshold_used 'f

text \<open>
  The lines stand for
  \<^verbatim>\<open>Error getting project tags: {e}\<close>,
  \<^verbatim>\<open>An error occurred reading the model target parameters: {e}\<close>,
  \<^verbatim>\<open>An error occurred reading the model training hyperparameters: {e}\<close>,
  \<^verbatim>\<open>An error occurred reading the model validation thresholds: {e}\<close> and
  \<^verbatim>\<open>model validation threshold used is : mean_quantile_loss <= {threshold}\<close>.

  A computation yields the lines it printed and either the exception it raised or its value.
\<close>

type_synonym ('f, 'a) io = "'f stdout_line list \<times> (py_error + 'a)"

definition io_return :: "'a \<Rightarrow> ('f, 'a) io" where
  "io_return x = ([], Inr x)"

definition io_lift :: "py_error + 'a \<Rightarrow> ('f, 'a) io" where
  "io_lift r = ([], r)"

definition io_print :: "'f stdout_line \<Rightarrow> ('f, unit) io" where
  "io_print l = ([l], Inr ())"

definition io_bind :: "('f, 'a) io \<Rightarrow> ('a \<Rightarrow> ('f, 'b) io) \<Rightarrow> ('f, 'b) io" where
  "io_bind m f =
     (case m of
        (out, Inl e) \<Rightarrow> (out, Inl e)
      | (out, Inr x) \<Rightarrow> (case f x of (out', r) \<Rightarrow> (out @ out', r)))"

definition io_try :: "('f, 'a) io \<Rightarrow> (py_error \<Rightarrow> ('f, 'a) io) \<Rightarrow> ('f, 'a) io" where
  "io_try m handler =
     (case m of
        (out, Inl e) \<Rightarrow> (case handler e of (out', r) \<Rightarrow> (out @ out', r))
      | (out, Inr x) \<Rightarrow> (out, Inr x))"

text \<open>A dictionary subscript \<^verbatim>\<open>d[k]\<close> raises \<^verbatim>\<open>KeyError\<close> on a missing key.\<close>

definition subscript :: "(string \<rightharpoonup> 'v) \<Rightarrow> string \<Rightarrow> py_error + 'v" where
  "subscript d k = (case d k of None \<Rightarrow> Inl (KeyError k) | Some v \<Rightarrow> Inr v)"

subsection \<open>Strings and paths\<close>

text \<open>\<^verbatim>\<open>s.split(sep)\<close> for a one-character separator: the result is never empty.\<close>

fun str_split :: "char \<Rightarrow> string \<Rightarrow> string list" where
  "str_split sep [] = [[]]"
| "str_split sep (c # cs) =
     (if c = sep then [] # str_split sep cs
      else (case str_split sep cs of
              [] \<Rightarrow> [[c]]
            | x # xs \<Rightarrow> (c # x) # xs))"

text \<open>\<^verbatim>\<open>os.path.join(a, b)\<close> on POSIX paths.\<close>

definition os_path_join :: "string \<Rightarrow> string \<Rightarrow> string" where
  "os_path_join a b =
     (if b \<noteq> [] \<and> hd b = CHR ''/'' then b
      else if a = [] \<or> last a = CHR ''/'' then a @ b
      else a @ ''/'' @ b)"

subsection \<open>Objects of the SDK\<close>

datatype boto_session = BotoSession nat
datatype boto_client = BotoClient nat
datatype sagemaker_session = SagemakerSession nat

datatype tag = Tag string string

datatype path_elem = Attr string | Key string

datatype pipeline_parameter =
    ParameterInteger string int
  | ParameterString string string
  | ParameterBoolean string bool

text \<open>
  A value handed to the SDK: a plain string, a reference to a property of a step (the
  name of the step and the path below \<^verbatim>\<open>step.properties\<close>), a pipeline parameter, an
  execution variable, or a \<^verbatim>\<open>Join\<close> of such values.
\<close>

datatype pvalue =
    Str string
  | Properties string "path_elem list"
  | Parameter pipeline_parameter
  | ExecutionVariable string
  | Join string "pvalue list"

datatype json = JInt int | JStr string | JList "json list" | JObject "(string \<times> json) list"

datatype env_value = json_dumps json

record ProcessingInput =
  pi_source :: pvalue
  pi_destination :: string

record ProcessingOutput =
  po_output_name :: string
  po_source :: string

record ScriptProcessor =
  sp_image_uri :: string
  sp_command :: "string list"
  sp_instance_type :: string
  sp_instance_count :: int
  sp_base_job_name :: string
  sp_sagemaker_session :: sagemaker_session
  sp_role :: string

text \<open>The arguments of \<^verbatim>\<open>processor.run(...)\<close>, with the processor it is called on.\<close>

record Processor_run =
  run_processor :: ScriptProcessor
  run_inputs :: "ProcessingInput list option"
  run_outputs :: "ProcessingOutput list"
  run_code :: string
  run_arguments :: "string list"

record PropertyFile =
  pf_name :: string
  pf_output_name :: string
  pf_path :: string

record Estimator =
  est_image_uri :: string
  est_sagemaker_session :: sagemaker_session
  est_role :: string
  est_instance_count :: int
  est_instance_type :: string
  est_base_job_name :: string
  est_use_spot_instances :: bool
  est_max_run :: int
  est_max_wait :: int
  est_output_path :: string
  est_hyperparameters :: "(string \<times> string) list"

record TrainingInput =
  ti_s3_data :: pvalue
  ti_content_type :: string

record Estimator_fit =
  fit_estimator :: Estimator
  fit_inputs :: "(string \<times> TrainingInput) list"

record Model =
  model_image_uri :: string
  model_model_data :: pvalue
  model_sagemaker_session :: sagemaker_session
  model_role :: string

record Model_create_args =
  create_model :: Model
  create_instance_type :: string
  create_accelerator_type :: string

record MetricsSource =
  ms_s3_uri :: pvalue
  ms_content_type :: string

record ModelMetrics =
  mm_model_statistics :: MetricsSource
  mm_model_constraints :: MetricsSource

record DriftCheckBaselines =
  dcb_model_statistics :: MetricsSource
  dcb_model_constraints :: MetricsSource

record Model_register_args =
  reg_model :: Model
  reg_content_types :: "string list"
  reg_response_types :: "string list"
  reg_inference_instances :: "string list"
  reg_transform_instances :: "string list"
  reg_model_package_group_name :: string
  reg_approval_status :: pipeline_parameter
  reg_model_metrics :: ModelMetrics
  reg_drift_check_baselines :: DriftCheckBaselines

datatype model_step_args = Model_create Model_create_args | Model_register Model_register_args

record Transformer =
  tr_model_name :: pvalue
  tr_instance_type :: string
  tr_instance_count :: int
  tr_accept :: string
  tr_strategy :: string
  tr_assemble_with :: string
  tr_output_path :: string
  tr_sagemaker_session :: sagemaker_session
  tr_env :: "(string \<times> env_value) list"

record Transformer_transform =
  tt_transformer :: Transformer
  tt_data :: pvalue
  tt_content_type :: string
  tt_split_type :: string

record CheckJobConfig =
  cjc_role :: string
  cjc_instance_count :: int
  cjc_instance_type :: string
  cjc_volume_size_in_gb :: int
  cjc_sagemaker_session :: sagemaker_session

datatype dataset_format = DatasetFormat_csv bool

record ModelQualityCheckConfig =
  mqc_baseline_dataset :: pvalue
  mqc_dataset_format :: dataset_format
  mqc_output_s3_uri :: pvalue
  mqc_problem_type :: string
  mqc_inference_attribute :: string
  mqc_ground_truth_attribute :: string

record QualityCheck =
  qc_skip_check :: pipeline_parameter
  qc_register_new_baseline :: pipeline_parameter
  qc_quality_check_config :: ModelQualityCheckConfig
  qc_check_job_config :: CheckJobConfig
  qc_supplied_baseline_statistics :: pipeline_parameter
  qc_supplied_baseline_constraints :: pipeline_parameter
  qc_model_package_group_name :: string

record JsonGet =
  jg_step_name :: string
  jg_property_file :: PropertyFile
  jg_json_path :: string

text \<open>\<^verbatim>\<open>ConditionLessThanOrEqualTo(left=..., right=...)\<close>, the only condition the source builds.\<close>

datatype 'f condition = ConditionLessThanOrEqualTo JsonGet 'f

text \<open>
  The steps. The first argument is the \<^verbatim>\<open>name\<close>; then \<^verbatim>\<open>step_args\<close> (or, for the
  quality check and the condition, the arguments of the step itself); then
  \<^verbatim>\<open>property_files\<close> and \<^verbatim>\<open>depends_on\<close> where the class has them, \<open>None\<close> when
  the source does not pass them. A condition step holds \<^verbatim>\<open>conditions\<close>,
  \<^verbatim>\<open>if_steps\<close> and \<^verbatim>\<open>else_steps\<close>.
\<close>

datatype 'f step =
    ProcessingStep string Processor_run "PropertyFile list option" "string list option"
  | TrainingStep string Estimator_fit "string list option"
  | ModelStep string model_step_args
  | TransformStep string Transformer_transform
  | QualityCheckStep string QualityCheck
  | ConditionStep string "'f condition list" "'f step list" "'f step list"

record 'f Pipeline =
  pipeline_name :: string
  pipeline_parameters :: "pvalue list"
  pipeline_steps :: "'f step list"
  pipeline_sagemaker_session :: sagemaker_session

fun step_name :: "'f step \<Rightarrow> string" where
  "step_name (ProcessingStep n _ _ _) = n"
| "step_name (TrainingStep n _ _) = n"
| "step_name (ModelStep n _) = n"
| "step_name (TransformStep n _) = n"
| "step_name (QualityCheckStep n _) = n"
| "step_name (ConditionStep n _ _ _) = n"

text \<open>\<^verbatim>\<open>step.properties.a.b["k"]...\<close>: a reference that carries the name of the step.\<close>

definition properties :: "'f step \<Rightarrow> path_elem list \<Rightarrow> pvalue" where
  "properties s path = Properties (step_name s) path"

subsection \<open>The outside world\<close>

text \<open>
  One field per call that leaves the process, named after the call. Each gives the
  exception the call raises or the value it returns; the responses of boto3 have the
  shape its service model fixes, so a response is given by the fields the source reads:
  the \<^verbatim>\<open>Value\<close> of the parameter, the \<^verbatim>\<open>Name\<close> and \<^verbatim>\<open>Value\<close> of each entry of
  \<^verbatim>\<open>Parameters\<close>, the \<^verbatim>\<open>ProjectArn\<close>, the list \<^verbatim>\<open>Tags\<close>.
  \<open>Pipeline_init\<close> is the constructor of the pipeline object: it may raise.
  \<open>py_float\<close> is \<^verbatim>\<open>float(s)\<close> on a string and \<open>BASE_DIR\<close> the directory of the
  source file.
\<close>

record 'f world =
  boto3_Session :: "string \<Rightarrow> py_error + boto_session"
  boto_session_client :: "boto_session \<Rightarrow> string \<Rightarrow> py_error + boto_client"
  boto3_client :: "string \<Rightarrow> py_error + boto_client"
  sagemaker_session_Session ::
    "boto_session \<Rightarrow> boto_client \<Rightarrow> boto_client \<Rightarrow> string option \<Rightarrow> py_error + sagemaker_session"
  PipelineSession ::
    "boto_session \<Rightarrow> boto_client \<Rightarrow> string option \<Rightarrow> py_error + sagemaker_session"
  session_default_bucket :: "sagemaker_session \<Rightarrow> py_error + string"
  get_execution_role :: "sagemaker_session \<Rightarrow> py_error + string"
  ssm_get_parameter :: "boto_client \<Rightarrow> string \<Rightarrow> py_error + string"
  ssm_get_parameters_by_path ::
    "boto_client \<Rightarrow> string \<Rightarrow> bool \<Rightarrow> bool \<Rightarrow> py_error + (string \<times> string) list"
  get_base_python_image_uri :: "string \<Rightarrow> string \<Rightarrow> py_error + string"
  image_uris_retrieve :: "string \<Rightarrow> string \<Rightarrow> string \<Rightarrow> py_error + string"
  Pipeline_init :: "'f Pipeline \<Rightarrow> py_error option"
  sm_describe_project :: "boto_client \<Rightarrow> string option \<Rightarrow> py_error + string"
  sm_list_tags :: "boto_client \<Rightarrow> string \<Rightarrow> py_error + tag list"
  py_float :: "string \<Rightarrow> py_error + 'f"
  BASE_DIR :: string

subsection \<open>Constants\<close>

definition PROCESSING_FOLDER_PREFIX :: string where
  "PROCESSING_FOLDER_PREFIX = ''/opt/ml/processing''"

definition LOCAL_DATA_DIR :: string where
  "LOCAL_DATA_DIR = PROCESSING_FOLDER_PREFIX @ ''/data''"

definition LOCAL_MODEL_DIR :: string where
  "LOCAL_MODEL_DIR = PROCESSING_FOLDER_PREFIX @ ''/model''"

definition LOCAL_TEST_DIR :: string where
  "LOCAL_TEST_DIR = LOCAL_DATA_DIR @ ''/test''"

definition LOCAL_TRANSFORM_DIR :: string where
  "LOCAL_TRANSFORM_DIR = LOCAL_DATA_DIR @ ''/transform''"

definition LOCAL_EVALUATION_DIR :: string where
  "LOCAL_EVALUATION_DIR = LOCAL_DATA_DIR @ ''/evaluation''"

definition PROCESSING_STEP_NAME :: string where
  "PROCESSING_STEP_NAME = ''PreprocessData''"

definition PROCESSING_JOB_NAME :: string where
  "PROCESSING_JOB_NAME = ''PreprocessingJob''"

definition TRAINING_JOB_NAME :: string where
  "TRAINING_JOB_NAME = ''TrainingJob''"

definition TRAINING_STEP_NAME :: string where
  "TRAINING_STEP_NAME = ''TrainModel''"

definition CREATE_MODEL_STEP_NAME :: string where
  "CREATE_MODEL_STEP_NAME = ''CreateModel''"

definition TRANSFORM_STEP_NAME :: string where
  "TRANSFORM_STEP_NAME = ''Transform''"

definition MODEL_QUALITY_CHECK_STEP_NAME :: string where
  "MODEL_QUALITY_CHECK_STEP_NAME = ''QualityCheck''"

definition EVALUATION_JOB_NAME :: string where
  "EVALUATION_JOB_NAME = ''EvaluationJob''"

definition EVALUATION_REPORT_NAME :: string where
  "EVALUATION_REPORT_NAME = ''EvaluationReport''"

definition EVALUATION_STEP_NAME :: string where
  "EVALUATION_STEP_NAME = ''EvaluateModel''"

definition REGISTER_MODEL_STEP_NAME :: string where
  "REGISTER_MODEL_STEP_NAME = ''RegisterModel''"

definition CONDITON_STEP_NAME :: string where
  "CONDITON_STEP_NAME = ''CheckMQLCondition''"

definition BASE_INSTANCE_TYPE :: string where
  "BASE_INSTANCE_TYPE = ''ml.m5.large''"

definition PROCESSING_INSTANCE_TYPE :: string where
  "PROCESSING_INSTANCE_TYPE = ''ml.t3.medium''"

definition TRAINING_INSTANCE_TYPE :: string where
  "TRAINING_INSTANCE_TYPE = ''ml.c5.2xlarge''"

definition CREATE_MODEL_INSTANCE_TYPE :: string where
  "CREATE_MODEL_INSTANCE_TYPE = BASE_INSTANCE_TYPE"

definition TRANSFORM_INSTANCE_TYPE :: string where
  "TRANSFORM_INSTANCE_TYPE = BASE_INSTANCE_TYPE"

definition CHECK_INSTANCE_TYPE :: string where
  "CHECK_INSTANCE_TYPE = BASE_INSTANCE_TYPE"

definition INFERENCE_INSTANCES_TYPE :: "string list" where
  "INFERENCE_INSTANCES_TYPE = [''ml.t2.medium'', BASE_INSTANCE_TYPE]"

definition ACCELERATOR_TYPE :: string where
  "ACCELERATOR_TYPE = ''ml.eia1.medium''"

subsection \<open>Sessions and clients\<close>

definition get_sagemaker_client :: "'f world \<Rightarrow> string \<Rightarrow> ('f, boto_client) io" where
  "get_sagemaker_client w region =
     io_bind (io_lift (boto3_Session w region)) (\<lambda>boto_session.
     io_bind (io_lift (boto_session_client w boto_session ''sagemaker'')) (\<lambda>sagemaker_client.
     io_return sagemaker_client))"

definition get_session :: "'f world \<Rightarrow> string \<Rightarrow> string option \<Rightarrow> ('f, sagemaker_session) io" where
  "get_session w region default_bucket =
     io_bind (io_lift (boto3_Session w region)) (\<lambda>boto_session.
     io_bind (io_lift (boto_session_client w boto_session ''sagemaker'')) (\<lambda>sagemaker_client.
     io_bind (io_lift (boto_session_client w boto_session ''sagemaker-runtime'')) (\<lambda>runtime_client.
     io_lift (sagemaker_session_Session w boto_session sagemaker_client runtime_client
                default_bucket))))"

definition get_pipeline_session ::
  "'f world \<Rightarrow> string \<Rightarrow> string option \<Rightarrow> ('f, sagemaker_session) io" where
  "get_pipeline_session w region default_bucket =
     io_bind (io_lift (boto3_Session w region)) (\<lambda>boto_session.
     io_bind (io_lift (boto_session_client w boto_session ''sagemaker'')) (\<lambda>sagemaker_client.
     io_lift (PipelineSession w boto_session sagemaker_client default_bucket)))"

subsection \<open>The tags of the project\<close>

text \<open>
  The \<^verbatim>\<open>try\<close> block looks the project up, lists its tags and appends each of them to
  \<^verbatim>\<open>new_tags\<close>; the handler prints the exception; the function returns \<^verbatim>\<open>new_tags\<close>.
\<close>

definition get_pipeline_custom_tags ::
  "'f world \<Rightarrow> tag list \<Rightarrow> string \<Rightarrow> string option \<Rightarrow> ('f, tag list) io" where
  "get_pipeline_custom_tags w new_tags region sagemaker_project_name =
     io_bind
       (io_try
          (io_bind (get_sagemaker_client w region) (\<lambda>sm_client.
           io_bind (io_lift (sm_describe_project w sm_client sagemaker_project_name))
             (\<lambda>sagemaker_project_arn.
           io_bind (io_lift (sm_list_tags w sm_client sagemaker_project_arn)) (\<lambda>project_tags.
           io_return (new_tags @ project_tags)))))
          (\<lambda>e. io_bind (io_print (Error_getting_project_tags e)) (\<lambda>_. io_return new_tags)))
       (\<lambda>new_tags. io_return new_tags)"

subsection \<open>Reading a section of the parameter store\<close>

text \<open>
  The loop
  \<^verbatim>\<open>for param in response["Parameters"]: d[param["Name"].split("/")[-1]] = conv(param["Value"])\<close>
  over the entries still to be read. It stores into the dictionary entry by entry, so when
  a conversion raises, the entries stored before it stay. The result is the dictionary and
  the exception that ended the loop, if any.
\<close>

fun store_parameters ::
  "(string \<Rightarrow> py_error + 'v) \<Rightarrow> (string \<times> string) list \<Rightarrow> (string \<rightharpoonup> 'v)
     \<Rightarrow> (string \<rightharpoonup> 'v) \<times> py_error option" where
  "store_parameters conv [] d = (d, None)"
| "store_parameters conv ((Name, Value) # params) d =
     (case conv Value of
        Inl e \<Rightarrow> (d, Some e)
      | Inr v \<Rightarrow> store_parameters conv params (d(last (str_split CHR ''/'' Name) \<mapsto> v)))"

text \<open>
  The three blocks of \<^verbatim>\<open>get_pipeline\<close> that read a path of the parameter store have one
  shape: the dictionary starts empty; the \<^verbatim>\<open>try\<close> block calls
  \<^verbatim>\<open>get_parameters_by_path(Path=path, Recursive=False, WithDecryption=False)\<close> and runs
  the loop; the handler prints the exception. They differ in the path, the conversion of
  the value and the line printed. The block never raises: its value is the dictionary.
\<close>

definition read_parameters_by_path ::
  "'f world \<Rightarrow> boto_client \<Rightarrow> string \<Rightarrow> (string \<Rightarrow> py_error + 'v)
     \<Rightarrow> (py_error \<Rightarrow> 'f stdout_line) \<Rightarrow> ('f, string \<rightharpoonup> 'v) io" where
  "read_parameters_by_path w ssm_client path conv line =
     (case ssm_get_parameters_by_path w ssm_client path False False of
        Inl e \<Rightarrow> io_bind (io_print (line e)) (\<lambda>_. io_return Map.empty)
      | Inr response_Parameters \<Rightarrow>
          (case store_parameters conv response_Parameters Map.empty of
             (d, None) \<Rightarrow> io_return d
           | (d, Some e) \<Rightarrow> io_bind (io_print (line e)) (\<lambda>_. io_return d)))"

subsection \<open>The parameters of the pipeline execution\<close>

definition processing_instance_count :: pipeline_parameter where
  "processing_instance_count = ParameterInteger ''ProcessingInstanceCount'' 1"

definition model_approval_status :: pipeline_parameter where
  "model_approval_status = ParameterString ''ModelApprovalStatus'' ''PendingManualApproval''"

definition skip_check_model_quality :: pipeline_parameter where
  "skip_check_model_quality = ParameterBoolean ''SkipModelQualityCheck'' False"

definition register_new_baseline_model_quality :: pipeline_parameter where
  "register_new_baseline_model_quality = ParameterBoolean ''RegisterNewModelQualityBaseline'' False"

definition supplied_baseline_statistics_model_quality :: pipeline_parameter where
  "supplied_baseline_statistics_model_quality = ParameterString ''ModelQualitySuppliedStatistics'' []"

definition supplied_baseline_constraints_model_quality :: pipeline_parameter where
  "supplied_baseline_constraints_model_quality = ParameterString ''ModelQualitySuppliedConstraints'' []"

subsection \<open>The steps\<close>

text \<open>
  Each object that \<^verbatim>\<open>get_pipeline\<close> builds is a definition named after the local
  variable that holds it, with the local variables it reads as arguments. The source
  reuses the variable \<^verbatim>\<open>preprocessing_step_args\<close> for the arguments of four steps;
  here the arguments are written inside the step they belong to.
\<close>

definition data_preprocessor :: "string \<Rightarrow> sagemaker_session \<Rightarrow> string \<Rightarrow> ScriptProcessor" where
  "data_preprocessor processing_image_uri pipeline_session role =
     \<lparr> sp_image_uri = processing_image_uri,
       sp_command = [''python3''],
       sp_instance_type = PROCESSING_INSTANCE_TYPE,
       sp_instance_count = 1,
       sp_base_job_name = PROCESSING_JOB_NAME,
       sp_sagemaker_session = pipeline_session,
       sp_role = role \<rparr>"

definition step_preprocessing ::
  "'f world \<Rightarrow> ScriptProcessor \<Rightarrow> string \<Rightarrow> string \<Rightarrow> string \<Rightarrow> string \<Rightarrow> string \<Rightarrow> string
     \<Rightarrow> string \<Rightarrow> 'f step" where
  "step_preprocessing = (\<lambda>w data_preprocessor region feature_group_name default_bucket base_job_prefix freq target_col prediction_length.
     ProcessingStep PROCESSING_STEP_NAME
       \<lparr> run_processor = data_preprocessor,
         run_inputs = None,
         run_outputs =
           [\<lparr> po_output_name = ''train'', po_source = LOCAL_DATA_DIR @ ''/train'' \<rparr>,
            \<lparr> po_output_name = ''validation'', po_source = LOCAL_DATA_DIR @ ''/validation'' \<rparr>,
            \<lparr> po_output_name = ''test'', po_source = LOCAL_DATA_DIR @ ''/test'' \<rparr>],
         run_code = os_path_join (BASE_DIR w) ''preprocess.py'',
         run_arguments =
           [''--region'', region,
            ''--feature-group-name'', feature_group_name,
            ''--artifacts-bucket'', default_bucket,
            ''--base-job-prefix'', base_job_prefix,
            ''--freq'', freq,
            ''--target-col'', target_col,
            ''--prediction-length'', prediction_length] \<rparr>
       None None)"

definition deepar_estimator :: "string \<Rightarrow> sagemaker_session \<Rightarrow> string \<Rightarrow> string \<Rightarrow> Estimator" where
  "deepar_estimator deepar_image_uri pipeline_session role model_path =
     \<lparr> est_image_uri = deepar_image_uri,
       est_sagemaker_session = pipeline_session,
       est_role = role,
       est_instance_count = 1,
       est_instance_type = TRAINING_INSTANCE_TYPE,
       est_base_job_name = TRAINING_JOB_NAME,
       est_use_spot_instances = True,
       est_max_run = 60 * 60 - 1,
       est_max_wait = 60 * 60,
       est_output_path = model_path,
       est_hyperparameters = [] \<rparr>"

text \<open>
  \<^verbatim>\<open>estimator.set_hyperparameters(**kwargs)\<close> stores the keyword arguments in the
  estimator. The estimator of the source is new and the keys of the call are distinct, so
  its hyperparameters afterwards are the ones of the call.
\<close>

definition set_hyperparameters :: "Estimator \<Rightarrow> (string \<times> string) list \<Rightarrow> Estimator" where
  "set_hyperparameters est kwargs = est\<lparr> est_hyperparameters := kwargs \<rparr>"

definition hyperparameters ::
  "string \<Rightarrow> string \<Rightarrow> string \<Rightarrow> string \<Rightarrow> string \<Rightarrow> string \<Rightarrow> string \<Rightarrow> (string \<times> string) list" where
  "hyperparameters time_freq epochs early_stopping_patience mini_batch_size learning_rate
       context_length prediction_length =
     [(''time_freq'', time_freq),
      (''epochs'', epochs),
      (''early_stopping_patience'', early_stopping_patience),
      (''mini_batch_size'', mini_batch_size),
      (''learning_rate'', learning_rate),
      (''context_length'', context_length),
      (''prediction_length'', prediction_length),
      (''likelihood'', ''negative-binomial'')]"

definition step_train :: "Estimator \<Rightarrow> 'f step \<Rightarrow> 'f step" where
  "step_train = (\<lambda>deepar_estimator step_preprocessing.
     TrainingStep TRAINING_STEP_NAME
       \<lparr> fit_estimator = deepar_estimator,
         fit_inputs =
           [(''train'',
             \<lparr> ti_s3_data = properties step_preprocessing
                   [Attr ''ProcessingOutputConfig'', Attr ''Outputs'', Key ''train'',
                    Attr ''S3Output'', Attr ''S3Uri''],
               ti_content_type = ''json'' \<rparr>),
            (''test'',
             \<lparr> ti_s3_data = properties step_preprocessing
                   [Attr ''ProcessingOutputConfig'', Attr ''Outputs'', Key ''validation'',
                    Attr ''S3Output'', Attr ''S3Uri''],
               ti_content_type = ''json'' \<rparr>)] \<rparr>
       (Some [PROCESSING_STEP_NAME]))"

definition model :: "string \<Rightarrow> 'f step \<Rightarrow> sagemaker_session \<Rightarrow> string \<Rightarrow> Model" where
  "model = (\<lambda>deepar_image_uri step_train pipeline_session role.
     \<lparr> model_image_uri = deepar_image_uri,
       model_model_data = properties step_train [Attr ''ModelArtifacts'', Attr ''S3ModelArtifacts''],
       model_sagemaker_session = pipeline_session,
       model_role = role \<rparr>)"

definition step_create_model :: "Model \<Rightarrow> 'f step" where
  "step_create_model = (\<lambda>model.
     ModelStep CREATE_MODEL_STEP_NAME
       (Model_create
          \<lparr> create_model = model,
            create_instance_type = CREATE_MODEL_INSTANCE_TYPE,
            create_accelerator_type = ACCELERATOR_TYPE \<rparr>))"

definition deepar_environment_param :: json where
  "deepar_environment_param =
     JObject
       [(''num_samples'', JInt 100),
        (''output_types'', JList [JStr ''quantiles'', JStr ''mean'']),
        (''quantiles'', JList [JStr ''0.1'', JStr ''0.5'', JStr ''0.9''])]"

definition transformer :: "'f step \<Rightarrow> string \<Rightarrow> sagemaker_session \<Rightarrow> Transformer" where
  "transformer = (\<lambda>step_create_model transform_output_path pipeline_session.
     \<lparr> tr_model_name = properties step_create_model [Attr ''ModelName''],
       tr_instance_type = TRANSFORM_INSTANCE_TYPE,
       tr_instance_count = 1,
       tr_accept = ''application/jsonlines'',
       tr_strategy = ''SingleRecord'',
       tr_assemble_with = ''Line'',
       tr_output_path = transform_output_path,
       tr_sagemaker_session = pipeline_session,
       tr_env = [(''DEEPAR_INFERENCE_CONFIG'', json_dumps deepar_environment_param)] \<rparr>)"

text \<open>\<^verbatim>\<open>TransformInput(data=...)\<close>: the source reads back only its \<^verbatim>\<open>data\<close>.\<close>

definition transform_inputs_data :: "'f step \<Rightarrow> pvalue" where
  "transform_inputs_data = (\<lambda>step_preprocessing.
     Join ''/''
       [properties step_preprocessing
          [Attr ''ProcessingOutputConfig'', Attr ''Outputs'', Key ''test'',
           Attr ''S3Output'', Attr ''S3Uri''],
        Str ''test-inputs.json''])"

definition step_transform :: "Transformer \<Rightarrow> pvalue \<Rightarrow> 'f step" where
  "step_transform = (\<lambda>transformer transform_inputs_data.
     TransformStep TRANSFORM_STEP_NAME
       \<lparr> tt_transformer = transformer,
         tt_data = transform_inputs_data,
         tt_content_type = ''application/jsonlines'',
         tt_split_type = ''Line'' \<rparr>)"

definition evaluate_processor :: "string \<Rightarrow> sagemaker_session \<Rightarrow> string \<Rightarrow> ScriptProcessor" where
  "evaluate_processor processing_image_uri pipeline_session role =
     \<lparr> sp_image_uri = processing_image_uri,
       sp_command = [''python3''],
       sp_instance_type = PROCESSING_INSTANCE_TYPE,
       sp_instance_count = 1,
       sp_base_job_name = EVALUATION_JOB_NAME,
       sp_sagemaker_session = pipeline_session,
       sp_role = role \<rparr>"

definition evaluation_report :: PropertyFile where
  "evaluation_report =
     \<lparr> pf_name = EVALUATION_REPORT_NAME,
       pf_output_name = ''evaluation'',
       pf_path = ''evaluation.json'' \<rparr>"

definition step_eval ::
  "'f world \<Rightarrow> ScriptProcessor \<Rightarrow> 'f step \<Rightarrow> 'f step \<Rightarrow> string \<Rightarrow> 'f step" where
  "step_eval = (\<lambda>w evaluate_processor step_preprocessing step_transform target_col.
     ProcessingStep EVALUATION_STEP_NAME
       \<lparr> run_processor = evaluate_processor,
         run_inputs = Some
           [\<lparr> pi_source = properties step_preprocessing
                 [Attr ''ProcessingOutputConfig'', Attr ''Outputs'', Key ''test'',
                  Attr ''S3Output'', Attr ''S3Uri''],
              pi_destination = LOCAL_TEST_DIR \<rparr>,
            \<lparr> pi_source = properties step_transform
                 [Attr ''TransformOutput'', Attr ''S3OutputPath''],
              pi_destination = LOCAL_TRANSFORM_DIR \<rparr>],
         run_outputs =
           [\<lparr> po_output_name = ''evaluation'', po_source = LOCAL_EVALUATION_DIR \<rparr>],
         run_code = os_path_join (BASE_DIR w) ''evaluate.py'',
         run_arguments = [''--target-col'', target_col] \<rparr>
       (Some [evaluation_report])
       (Some [TRANSFORM_STEP_NAME]))"

definition check_job_config :: "string \<Rightarrow> sagemaker_session \<Rightarrow> CheckJobConfig" where
  "check_job_config role pipeline_session =
     \<lparr> cjc_role = role,
       cjc_instance_count = 1,
       cjc_instance_type = CHECK_INSTANCE_TYPE,
       cjc_volume_size_in_gb = 120,
       cjc_sagemaker_session = pipeline_session \<rparr>"

definition model_quality_check_config ::
  "'f step \<Rightarrow> string \<Rightarrow> string \<Rightarrow> pvalue \<Rightarrow> ModelQualityCheckConfig" where
  "model_quality_check_config = (\<lambda>step_eval default_bucket base_job_prefix execution_prefix.
     \<lparr> mqc_baseline_dataset =
         Join ''/''
           [properties step_eval
              [Attr ''ProcessingOutputConfig'', Attr ''Outputs'', Key ''evaluation'',
               Attr ''S3Output'', Attr ''S3Uri''],
            Str ''targets-quantiles.csv''],
       mqc_dataset_format = DatasetFormat_csv True,
       mqc_output_s3_uri =
         Join ''/''
           [Str ''s3:/'',
            Str default_bucket,
            Str base_job_prefix,
            execution_prefix,
            Str ''modelqualitycheck''],
       mqc_problem_type = ''Regression'',
       mqc_inference_attribute = ''quantile5'',
       mqc_ground_truth_attribute = ''target'' \<rparr>)"

definition model_quality_check_step ::
  "ModelQualityCheckConfig \<Rightarrow> CheckJobConfig \<Rightarrow> string \<Rightarrow> 'f step" where
  "model_quality_check_step = (\<lambda>model_quality_check_config check_job_config model_package_group_name.
     QualityCheckStep MODEL_QUALITY_CHECK_STEP_NAME
       \<lparr> qc_skip_check = skip_check_model_quality,
         qc_register_new_baseline = register_new_baseline_model_quality,
         qc_quality_check_config = model_quality_check_config,
         qc_check_job_config = check_job_config,
         qc_supplied_baseline_statistics = supplied_baseline_statistics_model_quality,
         qc_supplied_baseline_constraints = supplied_baseline_constraints_model_quality,
         qc_model_package_group_name = model_package_group_name \<rparr>)"

definition model_metrics :: "'f step \<Rightarrow> ModelMetrics" where
  "model_metrics = (\<lambda>model_quality_check_step.
     \<lparr> mm_model_statistics =
         \<lparr> ms_s3_uri = properties model_quality_check_step [Attr ''CalculatedBaselineStatistics''],
           ms_content_type = ''application/json'' \<rparr>,
       mm_model_constraints =
         \<lparr> ms_s3_uri = properties model_quality_check_step [Attr ''CalculatedBaselineConstraints''],
           ms_content_type = ''application/json'' \<rparr> \<rparr>)"

definition drift_check_baselines :: "'f step \<Rightarrow> DriftCheckBaselines" where
  "drift_check_baselines = (\<lambda>model_quality_check_step.
     \<lparr> dcb_model_statistics =
         \<lparr> ms_s3_uri = properties model_quality_check_step
             [Attr ''BaselineUsedForDriftCheckStatistics''],
           ms_content_type = ''application/json'' \<rparr>,
       dcb_model_constraints =
         \<lparr> ms_s3_uri = properties model_quality_check_step
             [Attr ''BaselineUsedForDriftCheckConstraints''],
           ms_content_type = ''application/json'' \<rparr> \<rparr>)"

definition step_register ::
  "Model \<Rightarrow> string \<Rightarrow> ModelMetrics \<Rightarrow> DriftCheckBaselines \<Rightarrow> 'f step" where
  "step_register = (\<lambda>model model_package_group_name model_metrics drift_check_baselines.
     ModelStep REGISTER_MODEL_STEP_NAME
       (Model_register
          \<lparr> reg_model = model,
            reg_content_types = [''application/json''],
            reg_response_types = [''application/json''],
            reg_inference_instances = INFERENCE_INSTANCES_TYPE,
            reg_transform_instances = [TRANSFORM_INSTANCE_TYPE],
            reg_model_package_group_name = model_package_group_name,
            reg_approval_status = model_approval_status,
            reg_model_metrics = model_metrics,
            reg_drift_check_baselines = drift_check_baselines \<rparr>))"

definition cond_lte :: "'f step \<Rightarrow> 'f \<Rightarrow> 'f condition" where
  "cond_lte = (\<lambda>step_eval threshold.
     ConditionLessThanOrEqualTo
       \<lparr> jg_step_name = step_name step_eval,
         jg_property_file = evaluation_report,
         jg_json_path = ''deepar_metrics.mean_quantile_loss.value'' \<rparr>
       threshold)"

definition step_cond :: "'f condition \<Rightarrow> 'f step \<Rightarrow> 'f step" where
  "step_cond = (\<lambda>cond_lte step_register.
     ConditionStep CONDITON_STEP_NAME [cond_lte] [step_register] [])"

text \<open>
  The arguments of \<^verbatim>\<open>Pipeline(...)\<close>; \<^verbatim>\<open>parameters\<close> is the list of the source,
  plain strings and parameter objects in one list.
\<close>

definition pipeline_args ::
  "string \<Rightarrow> string \<Rightarrow> 'f step list \<Rightarrow> sagemaker_session \<Rightarrow> 'f Pipeline" where
  "pipeline_args base_job_prefix feature_group_name steps pipeline_session =
     \<lparr> pipeline_name = base_job_prefix,
       pipeline_parameters =
         [Str PROCESSING_INSTANCE_TYPE,
          Parameter processing_instance_count,
          Str TRAINING_INSTANCE_TYPE,
          Parameter model_approval_status,
          Str feature_group_name,
          Parameter skip_check_model_quality,
          Parameter register_new_baseline_model_quality,
          Parameter supplied_baseline_statistics_model_quality,
          Parameter supplied_baseline_constraints_model_quality],
       pipeline_steps = steps,
       pipeline_sagemaker_session = pipeline_session \<rparr>"

subsection \<open>The builder\<close>

text \<open>
  Lines 198 to 202: the project name and the project id default when they are
  \<^verbatim>\<open>None\<close>, and the prefix is \<^verbatim>\<open>f"{sagemaker_project_name}-{sagemaker_project_id}"\<close>.
\<close>

definition base_job_prefix :: "string option \<Rightarrow> string option \<Rightarrow> string" where
  "base_job_prefix = (\<lambda>sagemaker_project_name sagemaker_project_id.
     let sagemaker_project_name =
           (case sagemaker_project_name of None \<Rightarrow> ''blockchain-forecasting'' | Some n \<Rightarrow> n);
         sagemaker_project_id =
           (case sagemaker_project_id of None \<Rightarrow> ''mlops-pipeline'' | Some i \<Rightarrow> i)
     in sagemaker_project_name @ ''-'' @ sagemaker_project_id)"

text \<open>
  The objects that \<^verbatim>\<open>get_pipeline\<close> builds, in the order of the source, as a function
  of the values it has looked up: the image URIs, the entries of the dictionaries, the
  sessions. Building them raises nothing, so the builder below runs the lookups in the
  order of the source and builds the objects at the end. The source reads some entries
  more than once; each read has its own argument here (\<open>freq\<close> and \<open>time_freq\<close>;
  \<open>target_col\<close> and \<open>eval_target_col\<close>; \<open>prediction_length\<close>,
  \<open>context_length\<close> and \<open>hp_prediction_length\<close>).
\<close>

definition pipeline ::
  "'f world \<Rightarrow> string \<Rightarrow> string \<Rightarrow> string \<Rightarrow> string \<Rightarrow> pvalue \<Rightarrow> sagemaker_session \<Rightarrow> string
     \<Rightarrow> string \<Rightarrow> string \<Rightarrow> string \<Rightarrow> string
     \<Rightarrow> string \<Rightarrow> string \<Rightarrow> string \<Rightarrow> string \<Rightarrow> string \<Rightarrow> string \<Rightarrow> string \<Rightarrow> string
     \<Rightarrow> string \<Rightarrow> 'f \<Rightarrow> string \<Rightarrow> 'f Pipeline" where
  "pipeline = (\<lambda>w region role default_bucket base_job_prefix execution_prefix pipeline_session
       feature_group_name
       processing_image_uri freq target_col prediction_length
       deepar_image_uri time_freq epochs early_stopping_patience mini_batch_size learning_rate
       context_length hp_prediction_length
       eval_target_col threshold model_package_group_name.
     let data_preprocessor = data_preprocessor processing_image_uri pipeline_session role;
         step_preprocessing =
           step_preprocessing w data_preprocessor region feature_group_name default_bucket
             base_job_prefix freq target_col prediction_length;
         model_path = ''s3://'' @ default_bucket @ ''/'' @ base_job_prefix
                        @ ''/model_training/output'';
         deepar_estimator = deepar_estimator deepar_image_uri pipeline_session role model_path;
         hyperparameters =
           hyperparameters time_freq epochs early_stopping_patience mini_batch_size
             learning_rate context_length hp_prediction_length;
         deepar_estimator = set_hyperparameters deepar_estimator hyperparameters;
         step_train = step_train deepar_estimator step_preprocessing;
         model = model deepar_image_uri step_train pipeline_session role;
         step_create_model = step_create_model model;
         transform_output_path = ''s3://'' @ default_bucket @ ''/'' @ base_job_prefix
                                   @ ''/batch_transform/output'';
         transformer = transformer step_create_model transform_output_path pipeline_session;
         transform_inputs_data = transform_inputs_data step_preprocessing;
         step_transform = step_transform transformer transform_inputs_data;
         evaluate_processor = evaluate_processor processing_image_uri pipeline_session role;
         step_eval =
           step_eval w evaluate_processor step_preprocessing step_transform eval_target_col;
         check_job_config = check_job_config role pipeline_session;
         model_quality_check_config =
           model_quality_check_config step_eval default_bucket base_job_prefix execution_prefix;
         model_quality_check_step =
           model_quality_check_step model_quality_check_config check_job_config
             model_package_group_name;
         model_metrics = model_metrics model_quality_check_step;
         drift_check_baselines = drift_check_baselines model_quality_check_step;
         step_register =
           step_register model model_package_group_name model_metrics drift_check_baselines;
         cond_lte = cond_lte step_eval threshold;
         step_cond = step_cond cond_lte step_register
     in pipeline_args base_job_prefix feature_group_name
          [step_preprocessing, step_train, step_create_model, step_transform, step_eval,
           model_quality_check_step, step_cond]
          pipeline_session)"

text \<open>
  \<^verbatim>\<open>get_pipeline\<close>. Each \<open>io_bind\<close> is a statement that can raise, in the order
  Python evaluates them: the calls into the outside world and the dictionary subscripts
  (lines 315 to 317 for the arguments of the preprocessing job, 349 to 355 for the
  hyperparameters, 486 for the evaluation job, 611 for the printed line and 618 for the
  condition). The three \<open>read_parameters_by_path\<close> are the \<^verbatim>\<open>try\<close> blocks of lines
  245 to 280; the read of the feature group name before them stands outside any
  \<^verbatim>\<open>try\<close>. The last statement is the call of \<^verbatim>\<open>Pipeline(...)\<close>.
\<close>

definition get_pipeline ::
  "'f world \<Rightarrow> string \<Rightarrow> string option \<Rightarrow> string option \<Rightarrow> string option \<Rightarrow> string option
     \<Rightarrow> string \<Rightarrow> ('f, 'f Pipeline) io" where
  "get_pipeline w region role default_bucket sagemaker_project_name sagemaker_project_id
       model_package_group_name =
    (let base_job_prefix = base_job_prefix sagemaker_project_name sagemaker_project_id;
         execution_prefix = ExecutionVariable ''PIPELINE_EXECUTION_ID''
     in
     io_bind (get_session w region default_bucket) (\<lambda>sagemaker_session.
     io_bind (io_lift (session_default_bucket w sagemaker_session)) (\<lambda>default_bucket.
     io_bind (io_lift (case role of
                         None \<Rightarrow> get_execution_role w sagemaker_session
                       | Some role \<Rightarrow> Inr role)) (\<lambda>role.
     io_bind (get_pipeline_session w region (Some default_bucket)) (\<lambda>pipeline_session.
     io_bind (io_lift (boto3_client w ''ssm'')) (\<lambda>ssm_client.
     io_bind (io_lift (ssm_get_parameter w ssm_client
                ''/rdi-mlops/stack-parameters/sagemaker-feature-group-name''))
       (\<lambda>feature_group_name.
     io_bind (read_parameters_by_path w ssm_client ''/rdi-mlops/sagemaker/model-build/target''
                Inr Error_reading_model_target_parameters)
       (\<lambda>model_target_parameters.
     io_bind (read_parameters_by_path w ssm_client
                ''/rdi-mlops/sagemaker/model-build/training-hyperparameters''
                Inr Error_reading_model_training_hyperparameters)
       (\<lambda>model_training_hyperparameters.
     io_bind (read_parameters_by_path w ssm_client
                ''/rdi-mlops/sagemaker/model-build/validation-threshold''
                (py_float w) Error_reading_model_validation_thresholds)
       (\<lambda>model_validation_thresholds.
     io_bind (io_lift (get_base_python_image_uri w region ''310'')) (\<lambda>processing_image_uri.
     io_bind (io_lift (subscript model_target_parameters ''freq'')) (\<lambda>freq.
     io_bind (io_lift (subscript model_target_parameters ''target_col'')) (\<lambda>target_col.
     io_bind (io_lift (subscript model_target_parameters ''prediction_length''))
       (\<lambda>prediction_length.
     io_bind (io_lift (image_uris_retrieve w ''forecasting-deepar'' region ''1''))
       (\<lambda>deepar_image_uri.
     io_bind (io_lift (subscript model_target_parameters ''freq'')) (\<lambda>time_freq.
     io_bind (io_lift (subscript model_training_hyperparameters ''epochs'')) (\<lambda>epochs.
     io_bind (io_lift (subscript model_training_hyperparameters ''early_stopping_patience''))
       (\<lambda>early_stopping_patience.
     io_bind (io_lift (subscript model_training_hyperparameters ''mini_batch_size''))
       (\<lambda>mini_batch_size.
     io_bind (io_lift (subscript model_training_hyperparameters ''learning_rate''))
       (\<lambda>learning_rate.
     io_bind (io_lift (subscript model_target_parameters ''prediction_length''))
       (\<lambda>context_length.
     io_bind (io_lift (subscript model_target_parameters ''prediction_length''))
       (\<lambda>hp_prediction_length.
     io_bind (io_lift (subscript model_target_parameters ''target_col'')) (\<lambda>eval_target_col.
     io_bind (io_lift (subscript model_validation_thresholds ''mean_quantile_loss''))
       (\<lambda>threshold_printed.
     io_bind (io_print (Model_validation_threshold_used threshold_printed)) (\<lambda>_.
     io_bind (io_lift (subscript model_validation_thresholds ''mean_quantile_loss''))
       (\<lambda>threshold.
     let pipeline =
           pipeline w region role default_bucket base_job_prefix execution_prefix
             pipeline_session feature_group_name
             processing_image_uri freq target_col prediction_length
             deepar_image_uri time_freq epochs early_stopping_patience mini_batch_size
             learning_rate context_length hp_prediction_length
             eval_target_col threshold model_package_group_name
     in
     (case Pipeline_init w pipeline of
        Some e \<Rightarrow> io_lift (Inl e)
      | None \<Rightarrow> io_return pipeline)))))))))))))))))))))))))))"

subsection \<open>Names and references of a pipeline\<close>

text \<open>
  What the statements about the structure of the pipeline read off it. The references of
  a step are the values in its arguments that the engine resolves at execution time
  (properties of steps, pipeline parameters, execution variables; a \<^verbatim>\<open>Join\<close> counts
  for the references in it, plain strings do not count), its \<^verbatim>\<open>depends_on\<close> entries,
  and the \<^verbatim>\<open>JsonGet\<close> of its conditions.
\<close>

datatype reference = Value_ref pvalue | Depends_on string | JsonGet_ref JsonGet

fun pvalue_leaves :: "pvalue \<Rightarrow> pvalue list" where
  "pvalue_leaves (Str s) = []"
| "pvalue_leaves (Join on vs) = concat (map pvalue_leaves vs)"
| "pvalue_leaves (Properties s path) = [Properties s path]"
| "pvalue_leaves (Parameter q) = [Parameter q]"
| "pvalue_leaves (ExecutionVariable v) = [ExecutionVariable v]"

fun condition_left :: "'f condition \<Rightarrow> JsonGet" where
  "condition_left (ConditionLessThanOrEqualTo l r) = l"

fun condition_right :: "'f condition \<Rightarrow> 'f" where
  "condition_right (ConditionLessThanOrEqualTo l r) = r"

fun step_references :: "'f step \<Rightarrow> reference list" where
  "step_references (ProcessingStep n run pfs dep) =
     map Value_ref
       (concat (map (\<lambda>i. pvalue_leaves (pi_source i))
          (case run_inputs run of None \<Rightarrow> [] | Some inputs \<Rightarrow> inputs)))
     @ map Depends_on (case dep of None \<Rightarrow> [] | Some d \<Rightarrow> d)"
| "step_references (TrainingStep n fit dep) =
     map Value_ref (concat (map (\<lambda>(channel, i). pvalue_leaves (ti_s3_data i)) (fit_inputs fit)))
     @ map Depends_on (case dep of None \<Rightarrow> [] | Some d \<Rightarrow> d)"
| "step_references (ModelStep n (Model_create c)) =
     map Value_ref (pvalue_leaves (model_model_data (create_model c)))"
| "step_references (ModelStep n (Model_register r)) =
     map Value_ref
       (pvalue_leaves (model_model_data (reg_model r))
        @ [Parameter (reg_approval_status r)]
        @ pvalue_leaves (ms_s3_uri (mm_model_statistics (reg_model_metrics r)))
        @ pvalue_leaves (ms_s3_uri (mm_model_constraints (reg_model_metrics r)))
        @ pvalue_leaves (ms_s3_uri (dcb_model_statistics (reg_drift_check_baselines r)))
        @ pvalue_leaves (ms_s3_uri (dcb_model_constraints (reg_drift_check_baselines r))))"
| "step_references (TransformStep n t) =
     map Value_ref
       (pvalue_leaves (tr_model_name (tt_transformer t)) @ pvalue_leaves (tt_data t))"
| "step_references (QualityCheckStep n q) =
     map Value_ref
       ([Parameter (qc_skip_check q), Parameter (qc_register_new_baseline q)]
        @ pvalue_leaves (mqc_baseline_dataset (qc_quality_check_config q))
        @ pvalue_leaves (mqc_output_s3_uri (qc_quality_check_config q))
        @ [Parameter (qc_supplied_baseline_statistics q),
           Parameter (qc_supplied_baseline_constraints q)])"
| "step_references (ConditionStep n conditions if_steps else_steps) =
     map (\<lambda>c. JsonGet_ref (condition_left c)) conditions"

text \<open>The step a reference points to, if it points to a step.\<close>

fun referenced_step :: "reference \<Rightarrow> string list" where
  "referenced_step (Value_ref (Properties s path)) = [s]"
| "referenced_step (Value_ref v) = []"
| "referenced_step (Depends_on s) = [s]"
| "referenced_step (JsonGet_ref j) = [jg_step_name j]"

text \<open>A step with the steps nested in it, the branches of a condition step.\<close>

fun all_steps :: "'f step \<Rightarrow> 'f step list" where
  "all_steps (ConditionStep n conditions if_steps else_steps) =
     ConditionStep n conditions if_steps else_steps
     # concat (map all_steps if_steps) @ concat (map all_steps else_steps)"
| "all_steps s = [s]"

definition referenced_steps :: "'f step \<Rightarrow> string list" where
  "referenced_steps s = concat (map referenced_step (concat (map step_references (all_steps s))))"

text \<open>
  Every step of the list, with the steps nested in it, refers only to steps that stand
  before it in the list (\<open>seen\<close> holds the names of the steps passed so far).
\<close>

fun refers_backwards :: "string list \<Rightarrow> 'f step list \<Rightarrow> bool" where
  "refers_backwards seen [] = True"
| "refers_backwards seen (s # steps) =
     (list_all (\<lambda>r. r \<in> set seen) (referenced_steps s)
      \<and> refers_backwards (seen @ [step_name s]) steps)"

text \<open>The wiring of a pipeline: per step, nested steps included, its name and references.\<close>

definition wiring :: "'f Pipeline \<Rightarrow> (string \<times> reference list) list" where
  "wiring p =
     map (\<lambda>s. (step_name s, step_references s)) (concat (map all_steps (pipeline_steps p)))"

fun is_training_step :: "'f step \<Rightarrow> bool" where
  "is_training_step (TrainingStep n fit dep) = True"
| "is_training_step s = False"

fun training_estimators :: "'f step \<Rightarrow> Estimator list" where
  "training_estimators (TrainingStep n fit dep) = [fit_estimator fit]"
| "training_estimators s = []"
subsection \<open>Example worlds\<close>

text \<open>
  Concrete outside worlds on which the builder is run below. In \<open>demo_world\<close> every call
  succeeds and the parameter store holds every entry the builder reads; the number type
  is \<open>real\<close> and \<^verbatim>\<open>float\<close> knows the one string stored as a threshold. The other
  worlds change one answer each.
\<close>

definition access_denied :: py_error where
  "access_denied = OtherException ''ClientError'' ''AccessDeniedException''"

definition demo_world :: "real world" where
  "demo_world =
     \<lparr> boto3_Session = (\<lambda>region. Inr (BotoSession 0)),
       boto_session_client = (\<lambda>s service. Inr (BotoClient 1)),
       boto3_client = (\<lambda>service. Inr (BotoClient 2)),
       sagemaker_session_Session = (\<lambda>s c r b. Inr (SagemakerSession 3)),
       PipelineSession = (\<lambda>s c b. Inr (SagemakerSession 4)),
       session_default_bucket = (\<lambda>s. Inr ''bucket''),
       get_execution_role = (\<lambda>s. Inr ''role''),
       ssm_get_parameter = (\<lambda>c n. Inr ''fg''),
       ssm_get_parameters_by_path = (\<lambda>c path r d.
          if path = ''/rdi-mlops/sagemaker/model-build/target'' then
            Inr [(''/rdi-mlops/sagemaker/model-build/target/freq'', ''1min''),
                 (''/rdi-mlops/sagemaker/model-build/target/target_col'', ''fee''),
                 (''/rdi-mlops/sagemaker/model-build/target/prediction_length'', ''5'')]
          else if path = ''/rdi-mlops/sagemaker/model-build/training-hyperparameters'' then
            Inr [(''/rdi-mlops/sagemaker/model-build/training-hyperparameters/epochs'', ''100''),
                 (''/rdi-mlops/sagemaker/model-build/training-hyperparameters/early_stopping_patience'',
                  ''10''),
                 (''/rdi-mlops/sagemaker/model-build/training-hyperparameters/mini_batch_size'',
                  ''32''),
                 (''/rdi-mlops/sagemaker/model-build/training-hyperparameters/learning_rate'',
                  ''0.001'')]
          else
            Inr [(''/rdi-mlops/sagemaker/model-build/validation-threshold/mean_quantile_loss'',
                  ''0.5'')]),
       get_base_python_image_uri = (\<lambda>r v. Inr ''python-image''),
       image_uris_retrieve = (\<lambda>f r v. Inr ''deepar-image''),
       Pipeline_init = (\<lambda>p. None),
       sm_describe_project = (\<lambda>c n. Inr ''arn''),
       sm_list_tags = (\<lambda>c a. Inr [Tag ''k'' ''v'']),
       py_float = (\<lambda>s. if s = ''0.5'' then Inr (1/2) else Inl (ValueError s)),
       BASE_DIR = ''/opt/pipelines/blockchain'' \<rparr>"

text \<open>The pipeline that the builder assembles from the answers of \<open>demo_world\<close>.\<close>

definition demo_pipeline :: "real world \<Rightarrow> real Pipeline" where
  "demo_pipeline w =
     pipeline w ''eu-west-1'' ''role'' ''bucket'' ''blockchain-forecasting-mlops-pipeline''
       (ExecutionVariable ''PIPELINE_EXECUTION_ID'') (SagemakerSession 4) ''fg''
       ''python-image'' ''1min'' ''fee'' ''5'' ''deepar-image'' ''1min'' ''100'' ''10'' ''32''
       ''0.001'' ''5'' ''5'' ''fee'' (1/2) ''Blockchain''"

text \<open>Same parameter store, another bucket, role, images and source directory.\<close>

definition other_world :: "real world" where
  "other_world =
     demo_world
       \<lparr> session_default_bucket := (\<lambda>s. Inr ''another-bucket''),
         get_execution_role := (\<lambda>s. Inr ''another-role''),
         get_base_python_image_uri := (\<lambda>r v. Inr ''python-image-2''),
         image_uris_retrieve := (\<lambda>f r v. Inr ''deepar-image-2''),
         BASE_DIR := ''/srv/pipelines'' \<rparr>"

definition other_pipeline :: "real Pipeline" where
  "other_pipeline =
     pipeline other_world ''eu-west-1'' ''another-role'' ''another-bucket''
       ''blockchain-forecasting-mlops-pipeline''
       (ExecutionVariable ''PIPELINE_EXECUTION_ID'') (SagemakerSession 4) ''fg''
       ''python-image-2'' ''1min'' ''fee'' ''5'' ''deepar-image-2'' ''1min'' ''100'' ''10'' ''32''
       ''0.001'' ''5'' ''5'' ''fee'' (1/2) ''Blockchain''"

text \<open>The read of the training hyperparameters fails.\<close>

definition hyperparameters_failing_world :: "real world" where
  "hyperparameters_failing_world =
     demo_world
       \<lparr> ssm_get_parameters_by_path := (\<lambda>c path r d.
            if path = ''/rdi-mlops/sagemaker/model-build/training-hyperparameters''
            then Inl access_denied
            else ssm_get_parameters_by_path demo_world c path r d) \<rparr>"

text \<open>The read of the feature group name fails.\<close>

definition feature_group_failing_world :: "real world" where
  "feature_group_failing_world = demo_world \<lparr> ssm_get_parameter := (\<lambda>c n. Inl access_denied) \<rparr>"

text \<open>The lookup of the execution role fails.\<close>

definition role_failing_world :: "real world" where
  "role_failing_world = demo_world \<lparr> get_execution_role := (\<lambda>s. Inl access_denied) \<rparr>"

text \<open>The lookups of the two images fail, one world each.\<close>

definition python_image_failing_world :: "real world" where
  "python_image_failing_world =
     demo_world \<lparr> get_base_python_image_uri := (\<lambda>r v. Inl (ValueError ''Unsupported region'')) \<rparr>"

definition deepar_image_failing_world :: "real world" where
  "deepar_image_failing_world =
     demo_world \<lparr> image_uris_retrieve := (\<lambda>f r v. Inl (ValueError ''Unsupported region'')) \<rparr>"

text \<open>The constructor of the pipeline raises.\<close>

definition pipeline_init_failing_world :: "real world" where
  "pipeline_init_failing_world =
     demo_world \<lparr> Pipeline_init := (\<lambda>p. Some (ValueError ''Invalid pipeline'')) \<rparr>"

text \<open>The project cannot be described; the tags cannot be listed.\<close>

definition describe_project_failing_world :: "real world" where
  "describe_project_failing_world =
     demo_world \<lparr> sm_describe_project := (\<lambda>c n. Inl access_denied) \<rparr>"

definition list_tags_failing_world :: "real world" where
  "list_tags_failing_world = demo_world \<lparr> sm_list_tags := (\<lambda>c a. Inl access_denied) \<rparr>"

definition client_failing_world :: "real world" where
  "client_failing_world = demo_world \<lparr> boto_session_client := (\<lambda>s service. Inl access_denied) \<rparr>"

section \<open>Auxiliary facts\<close>

lemma step_name_simps:
  "step_name (step_preprocessing w dp region fg bucket base freq tc pl :: 'f step) = PROCESSING_STEP_NAME"
  "step_name (step_train est (sp :: 'f step)) = TRAINING_STEP_NAME"
  "step_name (step_create_model m :: 'f step) = CREATE_MODEL_STEP_NAME"
  "step_name (step_transform tr tid :: 'f step) = TRANSFORM_STEP_NAME"
  "step_name (step_eval w ep (sp :: 'f step) stt etc) = EVALUATION_STEP_NAME"
  "step_name (model_quality_check_step cfg cjc mpg :: 'f step) = MODEL_QUALITY_CHECK_STEP_NAME"
  "step_name (step_register m mpg mm dcb :: 'f step) = REGISTER_MODEL_STEP_NAME"
  "step_name (step_cond c (sr :: 'f step)) = CONDITON_STEP_NAME"
  by (simp_all add: step_preprocessing_def step_train_def step_create_model_def
      step_transform_def step_eval_def model_quality_check_step_def step_register_def
      step_cond_def)

lemma all_steps_simps:
  "all_steps (step_preprocessing w dp region fg bucket base freq tc pl :: 'f step) = [step_preprocessing w dp region fg bucket base freq tc pl]"
  "all_steps (step_train est (sp :: 'f step)) = [step_train est sp]"
  "all_steps (step_create_model m :: 'f step) = [step_create_model m]"
  "all_steps (step_transform tr tid :: 'f step) = [step_transform tr tid]"
  "all_steps (step_eval w ep (sp :: 'f step) stt etc) = [step_eval w ep sp stt etc]"
  "all_steps (model_quality_check_step cfg cjc mpg :: 'f step) = [model_quality_check_step cfg cjc mpg]"
  "all_steps (step_register m mpg mm dcb :: 'f step) = [step_register m mpg mm dcb]"
  "all_steps (step_cond c (sr :: 'f step)) = step_cond c sr # all_steps sr"
  by (simp_all add: step_preprocessing_def step_train_def step_create_model_def
      step_transform_def step_eval_def model_quality_check_step_def step_register_def
      step_cond_def)

lemma step_references_simps:
  "step_references (step_preprocessing w dp region fg bucket base freq tc pl :: 'f step) = []"
  "step_references (step_train est (sp :: 'f step)) =
     [Value_ref (Properties (step_name sp)
        [Attr ''ProcessingOutputConfig'', Attr ''Outputs'', Key ''train'', Attr ''S3Output'', Attr ''S3Uri'']),
      Value_ref (Properties (step_name sp)
        [Attr ''ProcessingOutputConfig'', Attr ''Outputs'', Key ''validation'', Attr ''S3Output'', Attr ''S3Uri'']),
      Depends_on PROCESSING_STEP_NAME]"
  "step_references (step_create_model (model diu (st :: 'f step) ps role) :: 'f step) =
     [Value_ref (Properties (step_name st) [Attr ''ModelArtifacts'', Attr ''S3ModelArtifacts''])]"
  "step_references (step_transform (transformer (scm :: 'f step) outp ps) (transform_inputs_data (sp :: 'f step)) :: 'f step) =
     [Value_ref (Properties (step_name scm) [Attr ''ModelName'']),
      Value_ref (Properties (step_name sp)
        [Attr ''ProcessingOutputConfig'', Attr ''Outputs'', Key ''test'', Attr ''S3Output'', Attr ''S3Uri''])]"
  "step_references (step_eval w ep (sp :: 'f step) stt etc) =
     [Value_ref (Properties (step_name sp)
        [Attr ''ProcessingOutputConfig'', Attr ''Outputs'', Key ''test'', Attr ''S3Output'', Attr ''S3Uri'']),
      Value_ref (Properties (step_name stt) [Attr ''TransformOutput'', Attr ''S3OutputPath'']),
      Depends_on TRANSFORM_STEP_NAME]"
  "step_references (model_quality_check_step (model_quality_check_config (se :: 'f step) bucket base ep') cjc mpg :: 'f step) =
     [Value_ref (Parameter skip_check_model_quality),
      Value_ref (Parameter register_new_baseline_model_quality),
      Value_ref (Properties (step_name se)
        [Attr ''ProcessingOutputConfig'', Attr ''Outputs'', Key ''evaluation'', Attr ''S3Output'', Attr ''S3Uri''])]
     @ map Value_ref (pvalue_leaves ep')
     @ [Value_ref (Parameter supplied_baseline_statistics_model_quality),
        Value_ref (Parameter supplied_baseline_constraints_model_quality)]"
  "step_references (step_register (model diu (st :: 'f step) ps role) mpg (model_metrics (mqs :: 'f step)) (drift_check_baselines mqs) :: 'f step) =
     [Value_ref (Properties (step_name st) [Attr ''ModelArtifacts'', Attr ''S3ModelArtifacts'']),
      Value_ref (Parameter model_approval_status),
      Value_ref (Properties (step_name mqs) [Attr ''CalculatedBaselineStatistics'']),
      Value_ref (Properties (step_name mqs) [Attr ''CalculatedBaselineConstraints'']),
      Value_ref (Properties (step_name mqs) [Attr ''BaselineUsedForDriftCheckStatistics'']),
      Value_ref (Properties (step_name mqs) [Attr ''BaselineUsedForDriftCheckConstraints''])]"
  "step_references (step_cond (cond_lte (se :: 'f step) t) (sr :: 'f step)) =
     [JsonGet_ref \<lparr> jg_step_name = step_name se, jg_property_file = evaluation_report,
         jg_json_path = ''deepar_metrics.mean_quantile_loss.value'' \<rparr>]"
  by (simp_all add: step_preprocessing_def step_train_def step_create_model_def
      step_transform_def step_eval_def model_quality_check_step_def step_register_def
      step_cond_def properties_def model_def transformer_def transform_inputs_data_def
      model_quality_check_config_def model_metrics_def drift_check_baselines_def cond_lte_def)

lemma io_bind_Inr_iff:
  "io_bind m f = (out, Inr y) \<longleftrightarrow>
     (\<exists>o1 x o2. m = (o1, Inr x) \<and> f x = (o2, Inr y) \<and> out = o1 @ o2)"
  by (cases m) (auto simp: io_bind_def split: sum.splits prod.splits)

lemma io_bindE:
  assumes "io_bind m f = (out, Inr y)"
  obtains o1 x o2 where "m = (o1, Inr x)" "f x = (o2, Inr y)" "out = o1 @ o2"
  using assms by (auto simp: io_bind_Inr_iff)

lemma io_bind_Inr: "io_bind (o1, Inr x) f = (case f x of (o2, r) \<Rightarrow> (o1 @ o2, r))"
  by (simp add: io_bind_def)

lemma io_bind_Inl: "io_bind (o1, Inl e) f = (o1, Inl e)"
  by (simp add: io_bind_def)

lemma io_bind_lift_Inr: "io_bind (io_lift (Inr x)) f = f x"
  by (simp add: io_lift_def io_bind_def split: prod.splits)

lemma io_bind_lift_Inl: "io_bind (io_lift (Inl e)) f = ([], Inl e)"
  by (simp add: io_lift_def io_bind_def)

lemma io_bind_print: "io_bind (io_print l) f = (case f () of (o2, r) \<Rightarrow> (l # o2, r))"
  by (simp add: io_print_def io_bind_def)

declare io_bind_Inr [simp] io_bind_Inl [simp] io_bind_lift_Inr [simp] io_bind_lift_Inl [simp]
  io_bind_print [simp]

lemma io_lift_Inr_iff: "io_lift r = (out, Inr y) \<longleftrightarrow> r = Inr y \<and> out = []"
  by (auto simp: io_lift_def)

lemma io_return_Inr_iff: "io_return x = (out, Inr y) \<longleftrightarrow> y = x \<and> out = []"
  by (auto simp: io_return_def)

lemma io_print_Inr_iff: "io_print l = (out, Inr y) \<longleftrightarrow> out = [l]"
  by (auto simp: io_print_def)

lemma subscript_Inr_iff: "subscript d k = Inr v \<longleftrightarrow> d k = Some v"
  by (simp add: subscript_def split: option.splits)

lemma subscript_Some: "d k = Some v \<Longrightarrow> subscript d k = Inr v"
  by (simp add: subscript_def)

lemma subscript_None: "d k = None \<Longrightarrow> subscript d k = Inl (KeyError k)"
  by (simp add: subscript_def)

lemma init_case_iff:
  "(case i of Some e \<Rightarrow> io_lift (Inl e) | None \<Rightarrow> io_return P) = (out, Inr y) \<longleftrightarrow>
     i = None \<and> y = P \<and> out = []"
  by (cases i) (auto simp: io_lift_def io_return_def)

lemma get_session_no_output: "fst (get_session w region default_bucket) = []"
  by (simp add: get_session_def io_bind_def io_lift_def split: sum.splits)

lemma get_pipeline_session_no_output: "fst (get_pipeline_session w region default_bucket) = []"
  by (simp add: get_pipeline_session_def io_bind_def io_lift_def split: sum.splits)

lemma get_sagemaker_client_no_output: "fst (get_sagemaker_client w region) = []"
  by (simp add: get_sagemaker_client_def io_bind_def io_lift_def io_return_def split: sum.splits)

lemma read_parameters_by_path_returns:
  "\<exists>out d. read_parameters_by_path w c path conv line = (out, Inr d)"
  by (simp add: read_parameters_by_path_def io_return_def io_print_def split: sum.splits prod.splits option.splits)

lemma read_parameters_by_path_failure:
  assumes "ssm_get_parameters_by_path w c path False False = Inl e"
  shows "read_parameters_by_path w c path conv line = ([line e], Inr Map.empty)"
  using assms by (simp add: read_parameters_by_path_def io_return_def)

lemma get_pipeline_InrE0:
  assumes "get_pipeline w region role default_bucket pn pid mpg = (out, Inr p)"
  obtains sagemaker_session bucket role' pipeline_session ssm_client fg tgt hyp thr
    og ops o1 o2 o3 piu diu freq tc pl tf ep esp mbs lr cl hpl etc t0 t
  where
    "p = pipeline w region role' bucket (base_job_prefix pn pid)
           (ExecutionVariable ''PIPELINE_EXECUTION_ID'') pipeline_session fg piu freq tc pl diu
           tf ep esp mbs lr cl hpl etc t mpg"
    "get_session w region default_bucket = (og, Inr sagemaker_session)"
    "session_default_bucket w sagemaker_session = Inr bucket"
    "(case role of None \<Rightarrow> get_execution_role w sagemaker_session | Some r \<Rightarrow> Inr r) = Inr role'"
    "get_pipeline_session w region (Some bucket) = (ops, Inr pipeline_session)"
    "boto3_client w ''ssm'' = Inr ssm_client"
    "ssm_get_parameter w ssm_client ''/rdi-mlops/stack-parameters/sagemaker-feature-group-name'' = Inr fg"
    "read_parameters_by_path w ssm_client ''/rdi-mlops/sagemaker/model-build/target''
       Inr Error_reading_model_target_parameters = (o1, Inr tgt)"
    "read_parameters_by_path w ssm_client ''/rdi-mlops/sagemaker/model-build/training-hyperparameters''
       Inr Error_reading_model_training_hyperparameters = (o2, Inr hyp)"
    "read_parameters_by_path w ssm_client ''/rdi-mlops/sagemaker/model-build/validation-threshold''
       (py_float w) Error_reading_model_validation_thresholds = (o3, Inr thr)"
    "get_base_python_image_uri w region ''310'' = Inr piu"
    "tgt ''freq'' = Some freq" "tgt ''target_col'' = Some tc" "tgt ''prediction_length'' = Some pl"
    "image_uris_retrieve w ''forecasting-deepar'' region ''1'' = Inr diu"
    "tgt ''freq'' = Some tf"
    "hyp ''epochs'' = Some ep" "hyp ''early_stopping_patience'' = Some esp"
    "hyp ''mini_batch_size'' = Some mbs" "hyp ''learning_rate'' = Some lr"
    "tgt ''prediction_length'' = Some cl" "tgt ''prediction_length'' = Some hpl"
    "tgt ''target_col'' = Some etc"
    "thr ''mean_quantile_loss'' = Some t0"
    "thr ''mean_quantile_loss'' = Some t"
    "Pipeline_init w (pipeline w region role' bucket (base_job_prefix pn pid)
           (ExecutionVariable ''PIPELINE_EXECUTION_ID'') pipeline_session fg piu freq tc pl diu
           tf ep esp mbs lr cl hpl etc t mpg) = None"
    "out = og @ ops @ o1 @ o2 @ o3 @ [Model_validation_threshold_used t0]"
  using assms
  unfolding get_pipeline_def Let_def
  apply (elim io_bindE)
  apply (simp (no_asm_use) only: io_lift_Inr_iff io_print_Inr_iff subscript_Inr_iff init_case_iff)
  apply (elim conjE)
  apply (rule that)
  apply assumption+
  apply (simp (no_asm_simp))
  done

lemma get_pipeline_InrE:
  assumes "get_pipeline w region role default_bucket pn pid mpg = (out, Inr p)"
  obtains sagemaker_session bucket role' pipeline_session ssm_client fg tgt hyp thr
    o1 o2 o3 piu diu freq tc pl ep esp mbs lr t
  where
    "get_session w region default_bucket = ([], Inr sagemaker_session)"
    "session_default_bucket w sagemaker_session = Inr bucket"
    "(case role of None \<Rightarrow> get_execution_role w sagemaker_session | Some r \<Rightarrow> Inr r) = Inr role'"
    "get_pipeline_session w region (Some bucket) = ([], Inr pipeline_session)"
    "boto3_client w ''ssm'' = Inr ssm_client"
    "ssm_get_parameter w ssm_client ''/rdi-mlops/stack-parameters/sagemaker-feature-group-name'' = Inr fg"
    "read_parameters_by_path w ssm_client ''/rdi-mlops/sagemaker/model-build/target''
       Inr Error_reading_model_target_parameters = (o1, Inr tgt)"
    "read_parameters_by_path w ssm_client ''/rdi-mlops/sagemaker/model-build/training-hyperparameters''
       Inr Error_reading_model_training_hyperparameters = (o2, Inr hyp)"
    "read_parameters_by_path w ssm_client ''/rdi-mlops/sagemaker/model-build/validation-threshold''
       (py_float w) Error_reading_model_validation_thresholds = (o3, Inr thr)"
    "get_base_python_image_uri w region ''310'' = Inr piu"
    "tgt ''freq'' = Some freq" "tgt ''target_col'' = Some tc" "tgt ''prediction_length'' = Some pl"
    "image_uris_retrieve w ''forecasting-deepar'' region ''1'' = Inr diu"
    "hyp ''epochs'' = Some ep" "hyp ''early_stopping_patience'' = Some esp"
    "hyp ''mini_batch_size'' = Some mbs" "hyp ''learning_rate'' = Some lr"
    "thr ''mean_quantile_loss'' = Some t"
    "p = pipeline w region role' bucket (base_job_prefix pn pid)
           (ExecutionVariable ''PIPELINE_EXECUTION_ID'') pipeline_session fg piu freq tc pl diu
           freq ep esp mbs lr pl pl tc t mpg"
    "Pipeline_init w p = None"
    "out = o1 @ o2 @ o3 @ [Model_validation_threshold_used t]"
proof -
  from assms obtain sagemaker_session bucket role' pipeline_session ssm_client fg tgt hyp thr
    og ops o1 o2 o3 piu diu freq tc pl tf ep esp mbs lr cl hpl etc t0 t
  where p: 
    "p = pipeline w region role' bucket (base_job_prefix pn pid)
           (ExecutionVariable ''PIPELINE_EXECUTION_ID'') pipeline_session fg piu freq tc pl diu
           tf ep esp mbs lr cl hpl etc t mpg"
  and f:
    "get_session w region default_bucket = (og, Inr sagemaker_session)"
    "session_default_bucket w sagemaker_session = Inr bucket"
    "(case role of None \<Rightarrow> get_execution_role w sagemaker_session | Some r \<Rightarrow> Inr r) = Inr role'"
    "get_pipeline_session w region (Some bucket) = (ops, Inr pipeline_session)"
    "boto3_client w ''ssm'' = Inr ssm_client"
    "ssm_get_parameter w ssm_client ''/rdi-mlops/stack-parameters/sagemaker-feature-group-name'' = Inr fg"
    "read_parameters_by_path w ssm_client ''/rdi-mlops/sagemaker/model-build/target''
       Inr Error_reading_model_target_parameters = (o1, Inr tgt)"
    "read_parameters_by_path w ssm_client ''/rdi-mlops/sagemaker/model-build/training-hyperparameters''
       Inr Error_reading_model_training_hyperparameters = (o2, Inr hyp)"
    "read_parameters_by_path w ssm_client ''/rdi-mlops/sagemaker/model-build/validation-threshold''
       (py_float w) Error_reading_model_validation_thresholds = (o3, Inr thr)"
    "get_base_python_image_uri w region ''310'' = Inr piu"
    "tgt ''freq'' = Some freq" "tgt ''target_col'' = Some tc" "tgt ''prediction_length'' = Some pl"
    "image_uris_retrieve w ''forecasting-deepar'' region ''1'' = Inr diu"
    "tgt ''freq'' = Some tf"
    "hyp ''epochs'' = Some ep" "hyp ''early_stopping_patience'' = Some esp"
    "hyp ''mini_batch_size'' = Some mbs" "hyp ''learning_rate'' = Some lr"
    "tgt ''prediction_length'' = Some cl" "tgt ''prediction_length'' = Some hpl"
    "tgt ''target_col'' = Some etc"
    "thr ''mean_quantile_loss'' = Some t0"
    "thr ''mean_quantile_loss'' = Some t"
    "Pipeline_init w (pipeline w region role' bucket (base_job_prefix pn pid)
           (ExecutionVariable ''PIPELINE_EXECUTION_ID'') pipeline_session fg piu freq tc pl diu
           tf ep esp mbs lr cl hpl etc t mpg) = None"
    "out = og @ ops @ o1 @ o2 @ o3 @ [Model_validation_threshold_used t0]"
    by (rule get_pipeline_InrE0)
  have "og = []"
    using get_session_no_output [of w region default_bucket] f(1) by simp
  moreover have "ops = []"
    using get_pipeline_session_no_output [of w region "Some bucket"] f(4) by simp
  moreover have "tf = freq" "cl = pl" "hpl = pl" "etc = tc" "t0 = t"
    using f by simp_all
  ultimately show thesis
    using p f by (intro that [of sagemaker_session bucket role' pipeline_session ssm_client fg
          o1 tgt o2 hyp o3 thr piu freq tc pl diu ep esp mbs lr t]) simp_all
qed

lemma get_pipeline_returns:
  assumes
    "get_session w region default_bucket = ([], Inr sagemaker_session)"
    "session_default_bucket w sagemaker_session = Inr bucket"
    "(case role of None \<Rightarrow> get_execution_role w sagemaker_session | Some r \<Rightarrow> Inr r) = Inr role'"
    "get_pipeline_session w region (Some bucket) = ([], Inr pipeline_session)"
    "boto3_client w ''ssm'' = Inr ssm_client"
    "ssm_get_parameter w ssm_client ''/rdi-mlops/stack-parameters/sagemaker-feature-group-name'' = Inr fg"
    "read_parameters_by_path w ssm_client ''/rdi-mlops/sagemaker/model-build/target''
       Inr Error_reading_model_target_parameters = (o1, Inr tgt)"
    "read_parameters_by_path w ssm_client ''/rdi-mlops/sagemaker/model-build/training-hyperparameters''
       Inr Error_reading_model_training_hyperparameters = (o2, Inr hyp)"
    "read_parameters_by_path w ssm_client ''/rdi-mlops/sagemaker/model-build/validation-threshold''
       (py_float w) Error_reading_model_validation_thresholds = (o3, Inr thr)"
    "get_base_python_image_uri w region ''310'' = Inr piu"
    "tgt ''freq'' = Some freq" "tgt ''target_col'' = Some tc" "tgt ''prediction_length'' = Some pl"
    "image_uris_retrieve w ''forecasting-deepar'' region ''1'' = Inr diu"
    "hyp ''epochs'' = Some ep" "hyp ''early_stopping_patience'' = Some esp"
    "hyp ''mini_batch_size'' = Some mbs" "hyp ''learning_rate'' = Some lr"
    "thr ''mean_quantile_loss'' = Some t"
    "Pipeline_init w (pipeline w region role' bucket (base_job_prefix pn pid)
           (ExecutionVariable ''PIPELINE_EXECUTION_ID'') pipeline_session fg piu freq tc pl diu
           freq ep esp mbs lr pl pl tc t mpg) = None"
  shows "get_pipeline w region role default_bucket pn pid mpg =
     (o1 @ o2 @ o3 @ [Model_validation_threshold_used t],
      Inr (pipeline w region role' bucket (base_job_prefix pn pid)
           (ExecutionVariable ''PIPELINE_EXECUTION_ID'') pipeline_session fg piu freq tc pl diu
           freq ep esp mbs lr pl pl tc t mpg))"
  unfolding get_pipeline_def Let_def
  by (simp add: assms subscript_def io_return_def)

lemma get_pipeline_Pipeline_raises:
  assumes
    "get_session w region default_bucket = ([], Inr sagemaker_session)"
    "session_default_bucket w sagemaker_session = Inr bucket"
    "(case role of None \<Rightarrow> get_execution_role w sagemaker_session | Some r \<Rightarrow> Inr r) = Inr role'"
    "get_pipeline_session w region (Some bucket) = ([], Inr pipeline_session)"
    "boto3_client w ''ssm'' = Inr ssm_client"
    "ssm_get_parameter w ssm_client ''/rdi-mlops/stack-parameters/sagemaker-feature-group-name'' = Inr fg"
    "read_parameters_by_path w ssm_client ''/rdi-mlops/sagemaker/model-build/target''
       Inr Error_reading_model_target_parameters = (o1, Inr tgt)"
    "read_parameters_by_path w ssm_client ''/rdi-mlops/sagemaker/model-build/training-hyperparameters''
       Inr Error_reading_model_training_hyperparameters = (o2, Inr hyp)"
    "read_parameters_by_path w ssm_client ''/rdi-mlops/sagemaker/model-build/validation-threshold''
       (py_float w) Error_reading_model_validation_thresholds = (o3, Inr thr)"
    "get_base_python_image_uri w region ''310'' = Inr piu"
    "tgt ''freq'' = Some freq" "tgt ''target_col'' = Some tc" "tgt ''prediction_length'' = Some pl"
    "image_uris_retrieve w ''forecasting-deepar'' region ''1'' = Inr diu"
    "hyp ''epochs'' = Some ep" "hyp ''early_stopping_patience'' = Some esp"
    "hyp ''mini_batch_size'' = Some mbs" "hyp ''learning_rate'' = Some lr"
    "thr ''mean_quantile_loss'' = Some t"
    "Pipeline_init w (pipeline w region role' bucket (base_job_prefix pn pid)
           (ExecutionVariable ''PIPELINE_EXECUTION_ID'') pipeline_session fg piu freq tc pl diu
           freq ep esp mbs lr pl pl tc t mpg) = Some e"
  shows "get_pipeline w region role default_bucket pn pid mpg =
     (o1 @ o2 @ o3 @ [Model_validation_threshold_used t], Inl e)"
  unfolding get_pipeline_def Let_def
  by (simp add: assms subscript_def io_lift_def)

lemma get_pipeline_role_raises:
  assumes
    "get_session w region default_bucket = ([], Inr sagemaker_session)"
    "session_default_bucket w sagemaker_session = Inr bucket"
    "get_execution_role w sagemaker_session = Inl e"
  shows "get_pipeline w region None default_bucket pn pid mpg = ([], Inl e)"
  unfolding get_pipeline_def Let_def
  by (simp add: assms)

lemma demo_sessions:
  "get_session demo_world region b = ([], Inr (SagemakerSession 3))"
  "get_pipeline_session demo_world region b' = ([], Inr (SagemakerSession 4))"
  by (simp_all add: get_session_def get_pipeline_session_def demo_world_def io_lift_def)

lemma demo_target:
  "\<exists>d. read_parameters_by_path demo_world c ''/rdi-mlops/sagemaker/model-build/target'' Inr line = ([], Inr d)
     \<and> d ''freq'' = Some ''1min'' \<and> d ''target_col'' = Some ''fee'' \<and> d ''prediction_length'' = Some ''5''"
  by (simp add: read_parameters_by_path_def demo_world_def io_return_def)

lemma demo_hyper:
  "\<exists>d. read_parameters_by_path demo_world c ''/rdi-mlops/sagemaker/model-build/training-hyperparameters'' Inr line = ([], Inr d)
     \<and> d ''epochs'' = Some ''100'' \<and> d ''early_stopping_patience'' = Some ''10''
     \<and> d ''mini_batch_size'' = Some ''32'' \<and> d ''learning_rate'' = Some ''0.001''"
  by (simp add: read_parameters_by_path_def demo_world_def io_return_def)

lemma demo_threshold:
  "\<exists>d. read_parameters_by_path demo_world c ''/rdi-mlops/sagemaker/model-build/validation-threshold'' (py_float demo_world) line = ([], Inr d)
     \<and> d ''mean_quantile_loss'' = Some (1/2)"
  by (simp add: read_parameters_by_path_def demo_world_def io_return_def)

lemma base_job_prefix_None: "base_job_prefix None None = ''blockchain-forecasting-mlops-pipeline''"
  by (simp add: base_job_prefix_def)

lemma demo_run:
  "get_pipeline demo_world ''eu-west-1'' None None None None ''Blockchain'' =
     ([Model_validation_threshold_used (1/2)], Inr (demo_pipeline demo_world))"
proof -
  obtain tgt where tgt: "read_parameters_by_path demo_world (BotoClient 2) ''/rdi-mlops/sagemaker/model-build/target'' Inr Error_reading_model_target_parameters = ([], Inr tgt)"
     "tgt ''freq'' = Some ''1min''" "tgt ''target_col'' = Some ''fee''" "tgt ''prediction_length'' = Some ''5''"
    using demo_target by blast
  obtain hyp where hyp: "read_parameters_by_path demo_world (BotoClient 2) ''/rdi-mlops/sagemaker/model-build/training-hyperparameters'' Inr Error_reading_model_training_hyperparameters = ([], Inr hyp)"
     "hyp ''epochs'' = Some ''100''" "hyp ''early_stopping_patience'' = Some ''10''"
     "hyp ''mini_batch_size'' = Some ''32''" "hyp ''learning_rate'' = Some ''0.001''"
    using demo_hyper by blast
  obtain thr where thr: "read_parameters_by_path demo_world (BotoClient 2) ''/rdi-mlops/sagemaker/model-build/validation-threshold'' (py_float demo_world) Error_reading_model_validation_thresholds = ([], Inr thr)"
     "thr ''mean_quantile_loss'' = Some (1/2)"
    using demo_threshold by blast
  have "get_pipeline demo_world ''eu-west-1'' None None None None ''Blockchain'' =
     ([] @ [] @ [] @ [Model_validation_threshold_used (1/2)],
      Inr (pipeline demo_world ''eu-west-1'' ''role'' ''bucket'' (base_job_prefix None None)
       (ExecutionVariable ''PIPELINE_EXECUTION_ID'') (SagemakerSession 4) ''fg''
       ''python-image'' ''1min'' ''fee'' ''5'' ''deepar-image'' ''1min'' ''100'' ''10'' ''32''
       ''0.001'' ''5'' ''5'' ''fee'' (1/2) ''Blockchain''))"
    by (rule get_pipeline_returns [where sagemaker_session = "SagemakerSession 3"
          and ssm_client = "BotoClient 2" and tgt = tgt and hyp = hyp and thr = thr])
       (simp_all add: demo_sessions tgt hyp thr, simp_all add: demo_world_def)
  then show ?thesis
    by (simp add: demo_pipeline_def base_job_prefix_None)
qed

lemma pipeline_name_pipeline:
  "pipeline_name (pipeline w region role bucket base ep ps fg piu freq tc pl diu tf epochs esp mbs lr cl hpl etc t mpg) = base"
  by (simp add: pipeline_def Let_def pipeline_args_def)

lemma pipeline_parameters_pipeline:
  "pipeline_parameters (pipeline w region role bucket base ep ps fg piu freq tc pl diu tf epochs esp mbs lr cl hpl etc t mpg) =
     [Str PROCESSING_INSTANCE_TYPE,
      Parameter processing_instance_count,
      Str TRAINING_INSTANCE_TYPE,
      Parameter model_approval_status,
      Str fg,
      Parameter skip_check_model_quality,
      Parameter register_new_baseline_model_quality,
      Parameter supplied_baseline_statistics_model_quality,
      Parameter supplied_baseline_constraints_model_quality]"
  by (simp add: pipeline_def Let_def pipeline_args_def)

lemma pipeline_steps_names:
  "map step_name (pipeline_steps (pipeline w region role bucket base ep ps fg piu freq tc pl diu tf epochs esp mbs lr cl hpl etc t mpg)) =
     [PROCESSING_STEP_NAME, TRAINING_STEP_NAME, CREATE_MODEL_STEP_NAME, TRANSFORM_STEP_NAME,
      EVALUATION_STEP_NAME, MODEL_QUALITY_CHECK_STEP_NAME, CONDITON_STEP_NAME]"
  by (simp add: pipeline_def Let_def pipeline_args_def step_name_simps)

lemma pipeline_all_steps_names:
  "map step_name (concat (map all_steps (pipeline_steps (pipeline w region role bucket base ep ps fg piu freq tc pl diu tf epochs esp mbs lr cl hpl etc t mpg)))) =
     [PROCESSING_STEP_NAME, TRAINING_STEP_NAME, CREATE_MODEL_STEP_NAME, TRANSFORM_STEP_NAME,
      EVALUATION_STEP_NAME, MODEL_QUALITY_CHECK_STEP_NAME, CONDITON_STEP_NAME,
      REGISTER_MODEL_STEP_NAME]"
  by (simp add: pipeline_def Let_def pipeline_args_def step_name_simps all_steps_simps)

lemma training_estimators_simps:
  "training_estimators (step_preprocessing w dp region fg bucket base freq tc pl :: 'f step) = []"
  "training_estimators (step_train est (sp :: 'f step)) = [est]"
  "training_estimators (step_create_model m :: 'f step) = []"
  "training_estimators (step_transform tr tid :: 'f step) = []"
  "training_estimators (step_eval w ep (sp :: 'f step) stt etc) = []"
  "training_estimators (model_quality_check_step cfg cjc mpg :: 'f step) = []"
  "training_estimators (step_register m mpg mm dcb :: 'f step) = []"
  "training_estimators (step_cond c (sr :: 'f step)) = []"
  by (simp_all add: step_preprocessing_def step_train_def step_create_model_def
      step_transform_def step_eval_def model_quality_check_step_def step_register_def
      step_cond_def)

lemma pipeline_training_estimators:
  "concat (map training_estimators (concat (map all_steps (pipeline_steps
      (pipeline w region role bucket base ep ps fg piu freq tc pl diu tf epochs esp mbs lr cl hpl etc t mpg))))) =
     [set_hyperparameters
        (deepar_estimator diu ps role (''s3://'' @ bucket @ ''/'' @ base @ ''/model_training/output''))
        (hyperparameters tf epochs esp mbs lr cl hpl)]"
  by (simp add: pipeline_def Let_def pipeline_args_def all_steps_simps training_estimators_simps)

lemma pipeline_wiring:
  "wiring (pipeline w region role bucket base (ExecutionVariable x) ps fg piu freq tc pl diu tf epochs esp mbs lr cl hpl etc t mpg) =
     [(PROCESSING_STEP_NAME, []),
      (TRAINING_STEP_NAME,
       [Value_ref (Properties PROCESSING_STEP_NAME
          [Attr ''ProcessingOutputConfig'', Attr ''Outputs'', Key ''train'', Attr ''S3Output'', Attr ''S3Uri'']),
        Value_ref (Properties PROCESSING_STEP_NAME
          [Attr ''ProcessingOutputConfig'', Attr ''Outputs'', Key ''validation'', Attr ''S3Output'', Attr ''S3Uri'']),
        Depends_on PROCESSING_STEP_NAME]),
      (CREATE_MODEL_STEP_NAME,
       [Value_ref (Properties TRAINING_STEP_NAME [Attr ''ModelArtifacts'', Attr ''S3ModelArtifacts''])]),
      (TRANSFORM_STEP_NAME,
       [Value_ref (Properties CREATE_MODEL_STEP_NAME [Attr ''ModelName'']),
        Value_ref (Properties PROCESSING_STEP_NAME
          [Attr ''ProcessingOutputConfig'', Attr ''Outputs'', Key ''test'', Attr ''S3Output'', Attr ''S3Uri''])]),
      (EVALUATION_STEP_NAME,
       [Value_ref (Properties PROCESSING_STEP_NAME
          [Attr ''ProcessingOutputConfig'', Attr ''Outputs'', Key ''test'', Attr ''S3Output'', Attr ''S3Uri'']),
        Value_ref (Properties TRANSFORM_STEP_NAME [Attr ''TransformOutput'', Attr ''S3OutputPath'']),
        Depends_on TRANSFORM_STEP_NAME]),
      (MODEL_QUALITY_CHECK_STEP_NAME,
       [Value_ref (Parameter skip_check_model_quality),
        Value_ref (Parameter register_new_baseline_model_quality),
        Value_ref (Properties EVALUATION_STEP_NAME
          [Attr ''ProcessingOutputConfig'', Attr ''Outputs'', Key ''evaluation'', Attr ''S3Output'', Attr ''S3Uri'']),
        Value_ref (ExecutionVariable x),
        Value_ref (Parameter supplied_baseline_statistics_model_quality),
        Value_ref (Parameter supplied_baseline_constraints_model_quality)]),
      (CONDITON_STEP_NAME,
       [JsonGet_ref \<lparr> jg_step_name = EVALUATION_STEP_NAME, jg_property_file = evaluation_report,
          jg_json_path = ''deepar_metrics.mean_quantile_loss.value'' \<rparr>]),
      (REGISTER_MODEL_STEP_NAME,
       [Value_ref (Properties TRAINING_STEP_NAME [Attr ''ModelArtifacts'', Attr ''S3ModelArtifacts'']),
        Value_ref (Parameter model_approval_status),
        Value_ref (Properties MODEL_QUALITY_CHECK_STEP_NAME [Attr ''CalculatedBaselineStatistics'']),
        Value_ref (Properties MODEL_QUALITY_CHECK_STEP_NAME [Attr ''CalculatedBaselineConstraints'']),
        Value_ref (Properties MODEL_QUALITY_CHECK_STEP_NAME [Attr ''BaselineUsedForDriftCheckStatistics'']),
        Value_ref (Properties MODEL_QUALITY_CHECK_STEP_NAME [Attr ''BaselineUsedForDriftCheckConstraints''])])]"
  by (simp add: wiring_def pipeline_def Let_def pipeline_args_def all_steps_simps step_name_simps
      step_references_simps)

lemma pipeline_last_step:
  "\<exists>args. last (pipeline_steps (pipeline w region role bucket base ep ps fg piu freq tc pl diu tf epochs esp mbs lr cl hpl etc t mpg)) =
     ConditionStep CONDITON_STEP_NAME
       [ConditionLessThanOrEqualTo
          \<lparr> jg_step_name = EVALUATION_STEP_NAME, jg_property_file = evaluation_report,
            jg_json_path = ''deepar_metrics.mean_quantile_loss.value'' \<rparr> t]
       [ModelStep REGISTER_MODEL_STEP_NAME (Model_register args)]
       []"
  by (simp add: pipeline_def Let_def pipeline_args_def step_cond_def cond_lte_def step_name_simps
      step_register_def)

lemma pipeline_refers_backwards:
  "refers_backwards [] (pipeline_steps (pipeline w region role bucket base (ExecutionVariable x) ps fg piu freq tc pl diu tf epochs esp mbs lr cl hpl etc t mpg))"
  by (simp add: pipeline_def Let_def pipeline_args_def referenced_steps_def all_steps_simps
      step_name_simps step_references_simps)

lemma get_session_cong:
  assumes "boto3_Session w = boto3_Session w'" "boto_session_client w = boto_session_client w'"
    "sagemaker_session_Session w = sagemaker_session_Session w'"
  shows "get_session w = get_session w'"
  by (intro ext) (simp add: get_session_def assms)

lemma get_pipeline_session_cong:
  assumes "boto3_Session w = boto3_Session w'" "boto_session_client w = boto_session_client w'"
    "PipelineSession w = PipelineSession w'"
  shows "get_pipeline_session w = get_pipeline_session w'"
  by (intro ext) (simp add: get_pipeline_session_def assms)

lemma read_parameters_by_path_cong:
  assumes "ssm_get_parameters_by_path w = ssm_get_parameters_by_path w'"
  shows "read_parameters_by_path w = read_parameters_by_path w'"
  by (intro ext) (simp add: read_parameters_by_path_def assms)

section \<open>The name of the pipeline\<close>

text \<open>
  Claim C8. When the caller gives no project name and no project id, the builder uses
  \<^verbatim>\<open>blockchain-forecasting\<close> and \<^verbatim>\<open>mlops-pipeline\<close>; the pipeline it returns is named
  by the name, a hyphen and the id, whichever of the two were given.
\<close>

theorem get_pipeline_name:
  assumes "get_pipeline w region role default_bucket sagemaker_project_name sagemaker_project_id
             model_package_group_name = (out, Inr p)"
  shows "pipeline_name p =
           (case sagemaker_project_name of None \<Rightarrow> ''blockchain-forecasting'' | Some n \<Rightarrow> n)
           @ ''-'' @
           (case sagemaker_project_id of None \<Rightarrow> ''mlops-pipeline'' | Some i \<Rightarrow> i)"
  using assms
  by (elim get_pipeline_InrE) (simp add: pipeline_name_pipeline base_job_prefix_def)

theorem get_pipeline_name_witness:
  "get_pipeline demo_world ''eu-west-1'' None None None None ''Blockchain'' =
     ([Model_validation_threshold_used (1/2)], Inr (demo_pipeline demo_world))
   \<and> pipeline_name (demo_pipeline demo_world) = ''blockchain-forecasting-mlops-pipeline''"
  using get_pipeline_name [OF demo_run] demo_run by simp

section \<open>The training job\<close>

text \<open>
  Claim C10. The pipeline has one training step; its estimator asks for spot instances,
  with a maximum run time of 3599 seconds, which is below its maximum wait time of 3600
  seconds.
\<close>

theorem training_job_spot_limits:
  assumes "get_pipeline w region role default_bucket sagemaker_project_name sagemaker_project_id
             model_package_group_name = (out, Inr p)"
  shows "\<exists>est. concat (map training_estimators (concat (map all_steps (pipeline_steps p)))) = [est]
           \<and> est_use_spot_instances est
           \<and> est_max_run est = 3599 \<and> est_max_wait est = 3600
           \<and> est_max_run est < est_max_wait est"
  using assms
  by (elim get_pipeline_InrE)
     (simp add: pipeline_training_estimators set_hyperparameters_def deepar_estimator_def)

theorem training_job_spot_limits_witness:
  "get_pipeline demo_world ''eu-west-1'' None None None None ''Blockchain'' =
     ([Model_validation_threshold_used (1/2)], Inr (demo_pipeline demo_world))
   \<and> (\<exists>est. concat (map training_estimators
                 (concat (map all_steps (pipeline_steps (demo_pipeline demo_world))))) = [est]
           \<and> est_use_spot_instances est
           \<and> est_max_run est = 3599 \<and> est_max_wait est = 3600
           \<and> est_max_run est < est_max_wait est)"
  using training_job_spot_limits [OF demo_run] demo_run by blast

end
